theory Spec2Isabelle
  imports Main "HOL-Library.Char_ord" "HOL-Library.List_Lexorder"
begin

section \<open>The notify entity of \<open>homeassistant/components/notify/__init__.py\<close>\<close>

text \<open>
  The development embeds the class \<open>NotifyEntity\<close> (lines 164 to 236 of the source).
  An instance is a record of the attributes the class body reads and writes; a method
  that mutates the instance returns the updated record. Python exceptions are values of
  \<open>exn\<close>; a call that may raise returns \<open>exn + 'a\<close>, and where the instance or the
  host keeps the mutations made before the raise, the state is returned beside the
  outcome.
\<close>

subsection \<open>Data\<close>

text \<open>\<open>class NotifyDeviceClass(StrEnum)\<close>: one member.\<close>

datatype NotifyDeviceClass = MESSAGE_NOTIFIER

text \<open>
  \<open>class NotifyEntityDescription(EntityDescription)\<close>: the only field the notify
  module declares and reads is \<open>device_class: NotifyDeviceClass | None = None\<close>.
\<close>

record NotifyEntityDescription =
  description_device_class :: "NotifyDeviceClass option"

datatype exn = NotImplementedError | AttributeError | OtherError string

text \<open>A value of Python's \<open>Any\<close>, as it occurs in the \<open>data\<close> mapping of a call.\<close>

datatype any = AnyNone | AnyBool bool | AnyInt int | AnyStr string
  | AnyList "any list" | AnyDict "(string \<times> any) list"

type_synonym data_mapping = "(string \<times> any) list"

text \<open>
  The instance attributes of \<open>NotifyEntity\<close>.
  \<^item> \<open>_attr_device_class\<close> is annotated without a value and \<open>entity_description\<close>
    likewise, so \<open>hasattr\<close> may be false for either: the outer \<open>option\<close> is the
    presence of the attribute, the inner one of \<open>attr_device_class\<close> is Python's
    \<open>None\<close>.
  \<^item> \<open>__last_notified_isoformat: str | None = None\<close> is the name-mangled private field.
  \<^item> \<open>device_class\<close> and \<open>state\<close> are \<open>@cached_property\<close>;
    \<open>device_class_cache\<close> and \<open>state_cache\<close> are the values stored for them on
    the instance, and \<open>None\<close> means that no value is stored.
\<close>

text \<open>
  Modelled from the spec: the decorator \<open>cached_property\<close>
  (homeassistant.backports.functools) is not part of the sources at hand. It makes a
  cached property computed lazily: the first read runs the decorated function and
  stores its value on the instance under the property's name, later reads return the
  stored value without running the function, and \<open>del\<close> removes the stored value,
  raising \<open>AttributeError\<close> when there is none.
\<close>

record NotifyEntity =
  attr_device_class :: "NotifyDeviceClass option option"
  entity_description :: "NotifyEntityDescription option"
  last_notified_isoformat :: "string option"
  device_class_cache :: "NotifyDeviceClass option option"
  state_cache :: "string option option"

text \<open>
  A new instance: the class-level default \<open>__last_notified_isoformat = None\<close> and no
  cached property value. The two sources of the device class are what the subclass
  provides.
\<close>

definition NotifyEntity_init ::
  "NotifyDeviceClass option option \<Rightarrow> NotifyEntityDescription option \<Rightarrow> NotifyEntity" where
  "NotifyEntity_init attr description =
     \<lparr>attr_device_class = attr, entity_description = description,
      last_notified_isoformat = None, device_class_cache = None, state_cache = None\<rparr>"

text \<open>
  The host \<open>self.hass\<close> as far as the class touches it: the states that
  \<open>async_write_ha_state\<close> has written for this entity (oldest first), and whatever the
  send implementations of the integrations act on.
\<close>

record 'w hass =
  states :: "string option list"
  transport :: 'w

type_synonym 'w job = "'w hass \<Rightarrow> (exn + unit) \<times> 'w hass"

type_synonym 'w send_fn =
  "string option \<Rightarrow> string option \<Rightarrow> string list option \<Rightarrow> data_mapping option \<Rightarrow> 'w job"

text \<open>
  What a subclass of \<open>NotifyEntity\<close> may override: \<open>send_message\<close>,
  \<open>async_send_message\<close>, both or neither. The method \<open>_async_send_message\<close> is
  \<open>@final\<close>, and \<open>__set_state\<close> and \<open>__last_notified_isoformat\<close> are name-mangled, so
  an override acts on the host and not on the private state of the instance.
\<close>

record 'w NotifyImpl =
  send_message_override :: "'w send_fn option"
  async_send_message_override :: "'w send_fn option"

definition NotifyEntity_base :: "'w NotifyImpl" where
  "NotifyEntity_base = \<lparr>send_message_override = None, async_send_message_override = None\<rparr>"

text \<open>The keyword arguments of a service call; \<open>None\<close> is a key that is not passed.\<close>

record kwargs =
  kw_message :: "string option"
  kw_title :: "string option"
  kw_recipients :: "string list option"
  kw_data :: "data_mapping option"

subsection \<open>The device class\<close>

text \<open>The body of \<open>device_class\<close> (lines 185 to 189).\<close>

definition device_class_fget :: "NotifyEntity \<Rightarrow> NotifyDeviceClass option" where
  "device_class_fget self =
     (if attr_device_class self \<noteq> None then the (attr_device_class self)
      else if entity_description self \<noteq> None
        then description_device_class (the (entity_description self))
      else None)"

text \<open>Reading the cached property \<open>device_class\<close>.\<close>

definition device_class :: "NotifyEntity \<Rightarrow> NotifyDeviceClass option \<times> NotifyEntity" where
  "device_class self =
     (case device_class_cache self of
        Some v \<Rightarrow> (v, self)
      | None \<Rightarrow> (let v = device_class_fget self in (v, self\<lparr>device_class_cache := Some v\<rparr>)))"

definition default_to_device_class_name :: "NotifyEntity \<Rightarrow> bool \<times> NotifyEntity" where
  "default_to_device_class_name self =
     (case device_class self of (v, self1) \<Rightarrow> (v \<noteq> None, self1))"








subsection \<open>The state\<close>

text \<open>The body of \<open>state\<close> (line 196), and reading the cached property.\<close>

definition state_fget :: "NotifyEntity \<Rightarrow> string option" where
  "state_fget self = last_notified_isoformat self"

definition state :: "NotifyEntity \<Rightarrow> string option \<times> NotifyEntity" where
  "state self =
     (case state_cache self of
        Some v \<Rightarrow> (v, self)
      | None \<Rightarrow> (let v = state_fget self in (v, self\<lparr>state_cache := Some v\<rparr>)))"

text \<open>\<open>del self.state\<close>: deleting a value that is not stored raises \<open>AttributeError\<close>.\<close>

definition del_state :: "NotifyEntity \<Rightarrow> exn + NotifyEntity" where
  "del_state self =
     (if state_cache self = None then Inl AttributeError
      else Inr (self\<lparr>state_cache := None\<rparr>))"

text \<open>\<open>__set_state\<close> (lines 198 to 204): only \<open>AttributeError\<close> is caught.\<close>

definition private_set_state :: "string option \<Rightarrow> NotifyEntity \<Rightarrow> exn + NotifyEntity" where
  "private_set_state st self =
     (case del_state self of
        Inr self1 \<Rightarrow> Inr (self1\<lparr>last_notified_isoformat := st\<rparr>)
      | Inl e \<Rightarrow>
          if e = AttributeError then Inr (self\<lparr>last_notified_isoformat := st\<rparr>) else Inl e)"

subsection \<open>Sending\<close>

text \<open>\<open>NotifyEntity.send_message\<close> (lines 216 to 224) and its dynamic dispatch.\<close>

definition send_message_base :: "'w send_fn" where
  "send_message_base message title recipients data h = (Inl NotImplementedError, h)"

definition send_message :: "'w NotifyImpl \<Rightarrow> 'w send_fn" where
  "send_message impl =
     (case send_message_override impl of Some f \<Rightarrow> f | None \<Rightarrow> send_message_base)"

text \<open>\<open>functools.partial\<close> binds the four positional arguments, in their order.\<close>

definition partial ::
  "'w send_fn \<Rightarrow> string option \<Rightarrow> string option \<Rightarrow> string list option \<Rightarrow> data_mapping option
     \<Rightarrow> 'w job" where
  "partial f a b c d = (\<lambda>h. f a b c d h)"

text \<open>
  Modelled from the spec: \<open>HomeAssistant.async_add_executor_job\<close> (homeassistant.core)
  is not part of the sources at hand. It schedules the execution of \<open>target\<close> on a
  worker; the completion, success or error, is reported to the caller that awaits it.
  Awaited, as both call sites do, it yields what \<open>target\<close> returned or raised and
  the host as \<open>target\<close> left it.
\<close>

definition async_add_executor_job :: "'w job \<Rightarrow> 'w job" where
  "async_add_executor_job target h = target h"

text \<open>\<open>NotifyEntity.async_send_message\<close> (lines 226 to 236) and its dynamic dispatch.\<close>

definition async_send_message_base :: "'w NotifyImpl \<Rightarrow> 'w send_fn" where
  "async_send_message_base impl message title recipients data h =
     async_add_executor_job (partial (send_message impl) message title recipients data) h"

definition async_send_message :: "'w NotifyImpl \<Rightarrow> 'w send_fn" where
  "async_send_message impl =
     (case async_send_message_override impl of
        Some f \<Rightarrow> f
      | None \<Rightarrow> async_send_message_base impl)"

text \<open>
  Modelled from the spec: \<open>Entity.async_write_ha_state\<close> (homeassistant.helpers.entity)
  is not part of the sources at hand. It publishes the updated observable state: the
  \<open>state\<close> property is read and its value is written to the host's states.
\<close>

definition async_write_ha_state :: "NotifyEntity \<Rightarrow> 'w hass \<Rightarrow> NotifyEntity \<times> 'w hass" where
  "async_write_ha_state self h =
     (case state self of (st, self1) \<Rightarrow> (self1, h\<lparr>states := states h @ [st]\<rparr>))"

text \<open>
  \<open>_async_send_message\<close> (lines 206 to 214). \<open>utcnow_isoformat\<close> is the value of
  \<open>dt_util.utcnow().isoformat()\<close> at the call; the clock is outside the program. The
  keyword arguments are passed on by name. The instance keeps the stamp when the send
  raises.
\<close>

definition protected_async_send_message ::
  "'w NotifyImpl \<Rightarrow> string \<Rightarrow> kwargs \<Rightarrow> NotifyEntity \<Rightarrow> 'w hass
     \<Rightarrow> (exn + unit) \<times> NotifyEntity \<times> 'w hass" where
  "protected_async_send_message impl utcnow_isoformat kw self h =
     (case private_set_state (Some utcnow_isoformat) self of
        Inl e \<Rightarrow> (Inl e, self, h)
      | Inr self1 \<Rightarrow>
          (case async_write_ha_state self1 h of
             (self2, h2) \<Rightarrow>
               (case async_send_message impl
                       (kw_message kw) (kw_title kw) (kw_recipients kw) (kw_data kw) h2 of
                  (r, h3) \<Rightarrow> (r, self2, h3))))"

subsection \<open>Startup\<close>

text \<open>
  \<open>NotifyEntity\<close> inherits from \<open>RestoreEntity\<close>, which keeps the last state a target
  had before the restart and hands it out on request. The class body (lines 164 to 236)
  overrides no lifecycle hook and never asks for that state: \<open>state\<close> is \<open>@final\<close> and
  reads the private field only, and the one writer of the private field is
  \<open>__set_state\<close>, which is called from \<open>_async_send_message\<close> alone. Adding the new
  instance to the host therefore leaves it as it is, whatever \<open>last_state\<close> holds.
\<close>

definition added_to_hass :: "string option \<Rightarrow> NotifyEntity \<Rightarrow> NotifyEntity" where
  "added_to_hass last_state self = self"

subsection \<open>Sequences of operations on one target\<close>

text \<open>
  Everything a caller can do with a target through the class: a dispatch at some clock
  reading, reads of the properties, direct calls of the two send methods, and a
  publication of the state. A dispatch that raised leaves the caller free to go on.
\<close>

datatype op =
    Dispatch string kwargs
  | ReadState
  | ReadDeviceClass
  | DefaultToDeviceClassName
  | SendMessage kwargs
  | AsyncSendMessage kwargs
  | WriteHaState

fun run_op :: "'w NotifyImpl \<Rightarrow> op \<Rightarrow> NotifyEntity \<times> 'w hass \<Rightarrow> NotifyEntity \<times> 'w hass" where
  "run_op impl (Dispatch now kw) (self, h) = snd (protected_async_send_message impl now kw self h)"
| "run_op impl ReadState (self, h) = (snd (state self), h)"
| "run_op impl ReadDeviceClass (self, h) = (snd (device_class self), h)"
| "run_op impl DefaultToDeviceClassName (self, h) = (snd (default_to_device_class_name self), h)"
| "run_op impl (SendMessage kw) (self, h) =
     (self, snd (send_message impl (kw_message kw) (kw_title kw) (kw_recipients kw) (kw_data kw) h))"
| "run_op impl (AsyncSendMessage kw) (self, h) =
     (self, snd (async_send_message impl (kw_message kw) (kw_title kw) (kw_recipients kw) (kw_data kw) h))"
| "run_op impl WriteHaState (self, h) = async_write_ha_state self h"

fun run_ops :: "'w NotifyImpl \<Rightarrow> op list \<Rightarrow> NotifyEntity \<times> 'w hass \<Rightarrow> NotifyEntity \<times> 'w hass" where
  "run_ops impl [] w = w"
| "run_ops impl (x # xs) w = run_ops impl xs (run_op impl x w)"

text \<open>The clock reading of the most recent dispatch of a sequence, if it has one.\<close>

fun last_dispatch :: "op list \<Rightarrow> string option" where
  "last_dispatch [] = None"
| "last_dispatch (Dispatch now kw # xs) =
     (case last_dispatch xs of None \<Rightarrow> Some now | Some later \<Rightarrow> Some later)"
| "last_dispatch (x # xs) = last_dispatch xs"

text \<open>Writes through \<open>__set_state\<close> and reads of \<open>state\<close>, in any order.\<close>

datatype access = Write "string option" | Read

fun run_access :: "access \<Rightarrow> NotifyEntity \<Rightarrow> exn + NotifyEntity" where
  "run_access (Write st) self = private_set_state st self"
| "run_access Read self = Inr (snd (state self))"

fun run_accesses :: "access list \<Rightarrow> NotifyEntity \<Rightarrow> exn + NotifyEntity" where
  "run_accesses [] self = Inr self"
| "run_accesses (a # as) self =
     (case run_access a self of Inl e \<Rightarrow> Inl e | Inr self1 \<Rightarrow> run_accesses as self1)"

fun last_written :: "access list \<Rightarrow> string option option" where
  "last_written [] = None"
| "last_written (Write st # as) =
     (case last_written as of None \<Rightarrow> Some st | Some later \<Rightarrow> Some later)"
| "last_written (Read # as) = last_written as"

subsection \<open>Concrete targets and calls\<close>

text \<open>
  A target whose blocking send appends its four arguments, in the order received, to
  the transport; a host on which nothing has happened; a call with a message only.
\<close>

type_synonym sent = "string option \<times> string option \<times> string list option \<times> data_mapping option"

definition recording_send :: "sent list send_fn" where
  "recording_send message title recipients data h =
     (Inr (), h\<lparr>transport := transport h @ [(message, title, recipients, data)]\<rparr>)"

definition recording_target :: "sent list NotifyImpl" where
  "recording_target =
     \<lparr>send_message_override = Some recording_send, async_send_message_override = None\<rparr>"

definition idle_hass :: "sent list hass" where
  "idle_hass = \<lparr>states = [], transport = []\<rparr>"

definition hi :: kwargs where
  "hi = \<lparr>kw_message = Some ''hi'', kw_title = None, kw_recipients = None, kw_data = None\<rparr>"

definition pager :: NotifyEntity where
  "pager = NotifyEntity_init None (Some \<lparr>description_device_class = Some MESSAGE_NOTIFIER\<rparr>)"


text \<open>The pager after one dispatch at noon of 1 May 2024 (UTC).\<close>

definition notified_pager :: NotifyEntity where
  "notified_pager =
     fst (snd (protected_async_send_message recording_target
                 ''2024-05-01T12:00:00+00:00'' hi pager idle_hass))"

section \<open>Properties\<close>

subsection \<open>Auxiliary facts\<close>

lemma private_set_state_eq:
  "private_set_state st self = Inr (self\<lparr>state_cache := None, last_notified_isoformat := st\<rparr>)"
  by (cases "state_cache self") (simp_all add: private_set_state_def del_state_def)

lemma state_after_set:
  "fst (state (self\<lparr>state_cache := None, last_notified_isoformat := st\<rparr>)) = st"
  by (simp add: state_def state_fget_def)

lemma dispatch_unfold:
  "protected_async_send_message impl now kw self h =
     (case async_send_message impl (kw_message kw) (kw_title kw) (kw_recipients kw) (kw_data kw)
             (h\<lparr>states := states h @ [Some now]\<rparr>) of
        (r, h3) \<Rightarrow>
          (r, self\<lparr>state_cache := Some (Some now), last_notified_isoformat := Some now\<rparr>, h3))"
  by (simp add: protected_async_send_message_def private_set_state_eq async_write_ha_state_def
      state_def state_fget_def Let_def split: prod.splits)

lemma default_async_send_message:
  "async_send_message_override impl = None \<Longrightarrow>
     async_send_message impl message title recipients data h =
       send_message impl message title recipients data h"
  by (simp add: async_send_message_def async_send_message_base_def async_add_executor_job_def
      partial_def)

lemma state_read_idem: "fst (state (snd (state self))) = fst (state self)"
  by (simp add: state_def Let_def split: option.splits)

lemma state_device_class: "fst (state (snd (device_class self))) = fst (state self)"
  by (simp add: state_def state_fget_def device_class_def Let_def split: option.splits)

lemma state_default_name:
  "fst (state (snd (default_to_device_class_name self))) = fst (state self)"
  by (simp add: default_to_device_class_name_def case_prod_beta state_device_class)

lemma state_dispatch:
  "fst (state (fst (snd (protected_async_send_message impl now kw self h)))) = Some now"
  by (simp add: dispatch_unfold state_def split: prod.splits)

lemma state_write: "fst (state (fst (async_write_ha_state self h))) = fst (state self)"
  by (simp add: async_write_ha_state_def case_prod_beta state_read_idem)

lemma run_op_state:
  "fst (state (fst (run_op impl x w))) =
     (case x of Dispatch now kw \<Rightarrow> Some now | _ \<Rightarrow> fst (state (fst w)))"
  by (cases w; cases x)
     (simp_all add: state_dispatch state_read_idem state_device_class state_default_name
        state_write)

lemma run_ops_state:
  "fst (state (fst (run_ops impl xs w))) =
     (case last_dispatch xs of Some now \<Rightarrow> Some now | None \<Rightarrow> fst (state (fst w)))"
proof (induction xs arbitrary: w)
  case Nil
  show ?case by simp
next
  case (Cons x xs)
  show ?case
    by (cases x) (simp_all add: Cons.IH run_op_state split: option.splits)
qed

lemma run_access_total: "\<exists>self1. run_access a self = Inr self1"
  by (cases a) (simp_all add: private_set_state_eq)

lemma run_access_state:
  "run_access a self = Inr self1 \<Longrightarrow>
     fst (state self1) = (case a of Write st \<Rightarrow> st | Read \<Rightarrow> fst (state self))"
  by (cases a) (auto simp: private_set_state_eq state_after_set state_read_idem)

lemma run_accesses_state:
  "\<exists>self1. run_accesses as self = Inr self1 \<and>
     fst (state self1) = (case last_written as of Some st \<Rightarrow> st | None \<Rightarrow> fst (state self))"
proof (induction as arbitrary: self)
  case Nil
  show ?case by simp
next
  case (Cons a as)
  obtain self1 where a: "run_access a self = Inr self1"
    using run_access_total by blast
  from Cons.IH [of self1] obtain self2 where
    r: "run_accesses as self1 = Inr self2" and
    s: "fst (state self2) =
          (case last_written as of Some st \<Rightarrow> st | None \<Rightarrow> fst (state self1))"
    by blast
  have "fst (state self2) =
          (case last_written (a # as) of Some st \<Rightarrow> st | None \<Rightarrow> fst (state self))"
    using s run_access_state [OF a] by (cases a) (simp_all split: option.splits)
  with a r show ?case by simp
qed







lemma notified_pager_eq:
  "notified_pager =
     pager\<lparr>state_cache := Some (Some ''2024-05-01T12:00:00+00:00''),
           last_notified_isoformat := Some ''2024-05-01T12:00:00+00:00''\<rparr>"
  by (simp add: notified_pager_def dispatch_unfold case_prod_beta)

subsection \<open>Dispatch\<close>

text \<open>
  Claim C1. Every dispatch stamps the target with the current time and publishes the
  stamped state before the send logic is started: the send runs on the host whose
  published states already end with the stamp, and whatever the send returns or raises,
  the target carries the stamp afterwards.
\<close>

theorem dispatch_stamps_and_publishes_before_send:
  "\<exists>r h3.
     async_send_message impl (kw_message kw) (kw_title kw) (kw_recipients kw) (kw_data kw)
       (h\<lparr>states := states h @ [Some now]\<rparr>) = (r, h3) \<and>
     protected_async_send_message impl now kw self h =
       (r, self\<lparr>state_cache := Some (Some now), last_notified_isoformat := Some now\<rparr>, h3) \<and>
     fst (state (fst (snd (protected_async_send_message impl now kw self h)))) = Some now"
proof -
  obtain r h3 where
    send: "async_send_message impl (kw_message kw) (kw_title kw) (kw_recipients kw) (kw_data kw)
             (h\<lparr>states := states h @ [Some now]\<rparr>) = (r, h3)"
    by (cases "async_send_message impl (kw_message kw) (kw_title kw) (kw_recipients kw)
                 (kw_data kw) (h\<lparr>states := states h @ [Some now]\<rparr>)")
  have "protected_async_send_message impl now kw self h =
          (r, self\<lparr>state_cache := Some (Some now), last_notified_isoformat := Some now\<rparr>, h3)"
    by (simp add: dispatch_unfold send)
  with send state_dispatch show ?thesis by blast
qed

text \<open>
  Claim C2. The observable state of a new target is absent. A dispatch sets it to the
  time of the dispatch whatever the send does. After any sequence of operations it is
  the time of the most recent dispatch of the sequence, and what it was before when the
  sequence has no dispatch: a state that is a timestamp stays a timestamp.
\<close>

theorem observable_state_is_most_recent_activation:
  "fst (state (NotifyEntity_init attr description)) = None \<and>
   fst (state (fst (snd (protected_async_send_message impl now kw self h)))) = Some now \<and>
   fst (state (fst (run_ops impl xs (self, h)))) =
     (case last_dispatch xs of Some t \<Rightarrow> Some t | None \<Rightarrow> fst (state self)) \<and>
   (fst (state self) \<noteq> None \<longrightarrow> fst (state (fst (run_ops impl xs (self, h)))) \<noteq> None)"
proof -
  have new: "fst (state (NotifyEntity_init attr description)) = None"
    by (simp add: NotifyEntity_init_def state_def state_fget_def)
  have seq: "fst (state (fst (run_ops impl xs (self, h)))) =
      (case last_dispatch xs of Some t \<Rightarrow> Some t | None \<Rightarrow> fst (state self))"
    by (simp add: run_ops_state split: option.splits)
  have "fst (state self) \<noteq> None \<longrightarrow> fst (state (fst (run_ops impl xs (self, h)))) \<noteq> None"
    by (simp add: seq split: option.splits)
  with new seq state_dispatch show ?thesis by blast
qed

theorem observable_state_is_most_recent_activation_witness:
  "fst (state notified_pager) \<noteq> None \<and>
   fst (state (fst (run_ops recording_target
                      [ReadState, SendMessage hi, ReadDeviceClass, WriteHaState]
                      (notified_pager, idle_hass)))) \<noteq> None"
proof -
  have pre: "fst (state notified_pager) \<noteq> None"
    by (simp add: notified_pager_eq state_def)
  from observable_state_is_most_recent_activation
         [of None None recording_target "''x''" hi notified_pager idle_hass
             "[ReadState, SendMessage hi, ReadDeviceClass, WriteHaState]"]
  show ?thesis using pre by blast
qed

text \<open>
  Claim C3. After a restart the stored last state of a target is not reloaded. The
  pager is notified at noon; the process restarts and the new instance is added to the
  host, which holds the noon timestamp as the last state; the observable state of the
  new instance is absent.
\<close>

theorem restart_leaves_state_absent:
  "fst (state notified_pager) = Some ''2024-05-01T12:00:00+00:00'' \<and>
   fst (state (added_to_hass (Some ''2024-05-01T12:00:00+00:00'') pager)) = None"
  by (simp add: notified_pager_eq added_to_hass_def pager_def NotifyEntity_init_def
      state_def state_fget_def)

text \<open>
  Claim C5, as amended. Two dispatches to one target, one after the other: the state
  after the first is the clock reading of the first, the state after the second is the
  clock reading of the second, whatever the first send did. The two recorded timestamps
  are in non-decreasing order exactly when the reading of the later dispatch is not
  before the reading of the earlier one. The readings are the ISO 8601 strings of UTC
  times that \<open>dt_util.utcnow().isoformat()\<close> yields from the wall clock; they compare
  as strings the way the times compare.
\<close>

theorem sequential_dispatch_timestamps_follow_clock:
  "\<exists>r1 self1 h1 r2 self2 h2.
     protected_async_send_message impl now1 kw1 self h = (r1, self1, h1) \<and>
     protected_async_send_message impl now2 kw2 self1 h1 = (r2, self2, h2) \<and>
     fst (state self1) = Some now1 \<and> fst (state self2) = Some now2 \<and>
     ((\<exists>s1 s2. fst (state self1) = Some s1 \<and> fst (state self2) = Some s2 \<and> s1 \<le> s2) =
      (now1 \<le> now2))"
proof -
  obtain r1 self1 h1 where
    first: "protected_async_send_message impl now1 kw1 self h = (r1, self1, h1)"
    by (cases "protected_async_send_message impl now1 kw1 self h")
  obtain r2 self2 h2 where
    second: "protected_async_send_message impl now2 kw2 self1 h1 = (r2, self2, h2)"
    by (cases "protected_async_send_message impl now2 kw2 self1 h1")
  have s1: "fst (state self1) = Some now1"
    using state_dispatch [of impl now1 kw1 self h] first by simp
  have s2: "fst (state self2) = Some now2"
    using state_dispatch [of impl now2 kw2 self1 h1] second by simp
  have "(\<exists>s1 s2. fst (state self1) = Some s1 \<and> fst (state self2) = Some s2 \<and> s1 \<le> s2) =
        (now1 \<le> now2)"
    by (simp add: s1 s2)
  with first second s1 s2 show ?thesis by blast
qed

text \<open>
  Claim C5 as stated fails: the pager is notified when the wall clock reads one second
  past noon, the clock is set back, and the pager is notified again when it reads noon;
  the timestamp recorded by the later dispatch is smaller than the one recorded by the
  earlier dispatch.
\<close>

theorem sequential_dispatch_timestamps_counterexample:
  "fst (state (fst (snd (protected_async_send_message recording_target
                           ''2024-05-01T12:00:01+00:00'' hi pager idle_hass)))) =
     Some ''2024-05-01T12:00:01+00:00'' \<and>
   fst (state (fst (snd (protected_async_send_message recording_target
                           ''2024-05-01T12:00:00+00:00'' hi
                           (fst (snd (protected_async_send_message recording_target
                                        ''2024-05-01T12:00:01+00:00'' hi pager idle_hass)))
                           (snd (snd (protected_async_send_message recording_target
                                        ''2024-05-01T12:00:01+00:00'' hi pager idle_hass))))))) =
     Some ''2024-05-01T12:00:00+00:00'' \<and>
   \<not> ((''2024-05-01T12:00:01+00:00'' :: string) \<le> ''2024-05-01T12:00:00+00:00'')"
  by (simp add: state_dispatch)

subsection \<open>Sending\<close>

text \<open>
  Claim C6. A target that does not override \<open>async_send_message\<close>: the asynchronous
  send is the blocking \<open>send_message\<close> with the same four arguments in the same
  order, submitted to the executor, and it returns or raises what the blocking call
  returns or raises and leaves the host the blocking call leaves.
\<close>

theorem default_async_send_is_offloaded_blocking_send:
  assumes "async_send_message_override impl = None"
  shows "async_send_message impl message title recipients data =
           async_add_executor_job (partial (send_message impl) message title recipients data) \<and>
         async_send_message impl message title recipients data h =
           send_message impl message title recipients data h"
proof
  show "async_send_message impl message title recipients data =
          async_add_executor_job (partial (send_message impl) message title recipients data)"
  proof
    fix h'
    show "async_send_message impl message title recipients data h' =
            async_add_executor_job
              (partial (send_message impl) message title recipients data) h'"
      using assms by (simp add: async_send_message_def async_send_message_base_def)
  qed
  show "async_send_message impl message title recipients data h =
          send_message impl message title recipients data h"
    using assms by (rule default_async_send_message)
qed

theorem default_async_send_is_offloaded_blocking_send_witness:
  "async_send_message_override recording_target = None \<and>
   async_send_message recording_target (Some ''hi'') (Some ''greeting'') (Some [''ann'', ''bob''])
     (Some [(''priority'', AnyInt 1)]) idle_hass =
   (Inr (), \<lparr>states = [],
             transport = [(Some ''hi'', Some ''greeting'', Some [''ann'', ''bob''],
                           Some [(''priority'', AnyInt 1)])]\<rparr>)"
proof -
  have pre: "async_send_message_override recording_target = None"
    by (simp add: recording_target_def)
  have blocking:
    "send_message recording_target (Some ''hi'') (Some ''greeting'') (Some [''ann'', ''bob''])
       (Some [(''priority'', AnyInt 1)]) idle_hass =
     (Inr (), \<lparr>states = [],
               transport = [(Some ''hi'', Some ''greeting'', Some [''ann'', ''bob''],
                             Some [(''priority'', AnyInt 1)])]\<rparr>)"
    by (simp add: send_message_def recording_target_def recording_send_def idle_hass_def)
  from default_async_send_is_offloaded_blocking_send
         [OF pre, of "Some ''hi''" "Some ''greeting''" "Some [''ann'', ''bob'']"
            "Some [(''priority'', AnyInt 1)]" idle_hass]
  have "async_send_message recording_target (Some ''hi'') (Some ''greeting'')
          (Some [''ann'', ''bob'']) (Some [(''priority'', AnyInt 1)]) idle_hass =
        send_message recording_target (Some ''hi'') (Some ''greeting'')
          (Some [''ann'', ''bob'']) (Some [(''priority'', AnyInt 1)]) idle_hass"
    by blast
  with blocking pre show ?thesis by simp
qed

text \<open>
  Claim C9. The blocking send of the base class raises \<open>NotImplementedError\<close> for
  every message, title, recipients and data. A target that overrides neither send
  method fails every dispatch with that error, and the failed dispatch has stamped the
  target and published the stamp.
\<close>

theorem base_send_message_raises_not_implemented:
  "send_message_base message title recipients data h = (Inl NotImplementedError, h) \<and>
   send_message NotifyEntity_base message title recipients data h =
     (Inl NotImplementedError, h) \<and>
   protected_async_send_message NotifyEntity_base now kw self h =
     (Inl NotImplementedError,
      self\<lparr>state_cache := Some (Some now), last_notified_isoformat := Some now\<rparr>,
      h\<lparr>states := states h @ [Some now]\<rparr>) \<and>
   fst (state (fst (snd (protected_async_send_message NotifyEntity_base now kw self h)))) =
     Some now"
proof -
  have base: "send_message NotifyEntity_base message title recipients data h' =
                (Inl NotImplementedError, h')" for message title recipients data
    and h' :: "'a hass"
    by (simp add: send_message_def send_message_base_def NotifyEntity_base_def)
  have async: "async_send_message NotifyEntity_base message title recipients data h' =
                 (Inl NotImplementedError, h')" for message title recipients data
    and h' :: "'a hass"
    using default_async_send_message [of NotifyEntity_base message title recipients data h']
    by (simp add: base) (simp add: NotifyEntity_base_def)
  show ?thesis
    by (simp add: base async dispatch_unfold send_message_base_def state_def)
qed

subsection \<open>The cached properties\<close>



text \<open>
  Claim C10. A write through \<open>__set_state\<close> deletes the stored value of \<open>state\<close>,
  and the read that follows returns what was written. After any sequence of writes and
  reads the state read is the value written last, and what it was before when the
  sequence has no write.
\<close>

theorem state_is_read_after_write_consistent:
  "(\<exists>self1. private_set_state st self = Inr self1 \<and> state_cache self1 = None \<and>
      fst (state self1) = st \<and> last_notified_isoformat self1 = st) \<and>
   (\<exists>self2. run_accesses as self = Inr self2 \<and>
      fst (state self2) =
        (case last_written as of Some written \<Rightarrow> written | None \<Rightarrow> fst (state self)))"
proof
  show "\<exists>self1. private_set_state st self = Inr self1 \<and> state_cache self1 = None \<and>
      fst (state self1) = st \<and> last_notified_isoformat self1 = st"
    by (simp add: private_set_state_eq state_after_set)
  show "\<exists>self2. run_accesses as self = Inr self2 \<and>
      fst (state self2) =
        (case last_written as of Some written \<Rightarrow> written | None \<Rightarrow> fst (state self))"
    by (rule run_accesses_state)
qed

end
